theory Spec2Isabelle
  imports Main "HOL-Library.Char_ord" "HOL-Library.List_Lexorder" "HOL-Library.Multiset"
begin

section \<open>The data layer of the portal: \<open>services/db\<close>\<close>

text \<open>
  The module keeps user accounts, per-user completion lists and per-user progress maps
  in \<open>localStorage\<close> (JSON text under string keys) and the video catalogue in one
  IndexedDB object store, \<open>videos\<close>, keyed by the record's \<open>id\<close>. The embedding
  follows the TypeScript source function by function. Mutation of the two stores and
  of the module variables is explicit state passing over the record \<open>world\<close>; a
  thrown exception and a rejected promise are values.
\<close>

subsection \<open>The interfaces \<open>User\<close>, \<open>Video\<close> and \<open>VideoProgress\<close>\<close>

datatype user_type = Student | Admin

datatype class_level = Class8 | Class9 | Class10

datatype user_status = Active | Disabled

text \<open>\<open>password\<close> and \<open>class\<close> are optional properties: \<open>None\<close> is an absent property.\<close>

record user =
  user_id :: string
  user_name :: string
  email :: string
  password :: "string option"
  user_type :: user_type
  user_class :: "class_level option"
  user_status :: user_status

text \<open>\<open>Partial<User>\<close>: every property optional; \<open>None\<close> is a property the object lacks.\<close>

record user_patch =
  patch_user_id :: "string option"
  patch_user_name :: "string option"
  patch_email :: "string option"
  patch_password :: "string option"
  patch_user_type :: "user_type option"
  patch_user_class :: "class_level option"
  patch_user_status :: "user_status option"

datatype subject =
  Mathematics | Science | History | English | Geography | Physics
  | Chemistry | Biology | ComputerScience | Economics | Art

datatype video_status = Published | Draft

record video =
  video_id :: string
  title :: string
  description :: string
  subject :: subject
  video_class :: class_level
  duration :: string
  views :: int
  completed :: "bool option"
  video_status :: video_status
  thumbnailUrl :: string
  videoUrls :: "(string \<times> string) list"
  tags :: "string list option"
  uploadedAt :: string

text \<open>\<open>Partial<Video>\<close>.\<close>

record video_patch =
  patch_video_id :: "string option"
  patch_title :: "string option"
  patch_description :: "string option"
  patch_subject :: "subject option"
  patch_video_class :: "class_level option"
  patch_duration :: "string option"
  patch_views :: "int option"
  patch_completed :: "bool option"
  patch_video_status :: "video_status option"
  patch_thumbnailUrl :: "string option"
  patch_videoUrls :: "(string \<times> string) list option"
  patch_tags :: "string list option"
  patch_uploadedAt :: "string option"

text \<open>Seconds are JavaScript numbers; the embedding keeps the integral ones.\<close>

record video_progress =
  progress :: int
  duration_seconds :: int

type_synonym user_progress = "(string \<times> video_progress) list"

subsection \<open>Outcomes\<close>

datatype error =
  OpenError \<comment> \<open>\<open>reject('Error opening database.')\<close>\<close>
  | RequestError \<comment> \<open>\<open>reject(request.error)\<close>, \<open>reject(transaction.error)\<close> of a failed request\<close>
  | ConstraintError \<comment> \<open>\<open>request.error\<close> of an \<open>add\<close> whose key is already in the store\<close>
  | CallError \<comment> \<open>an exception raised by the IndexedDB call itself\<close>
  | TransactionInactiveError \<comment> \<open>raised by a request on a transaction that has finished\<close>
  | QuotaExceeded \<comment> \<open>\<open>Error('Storage quota exceeded. Please clear some space.')\<close>\<close>
  | WriteError \<comment> \<open>any other exception of \<open>localStorage.setItem\<close>, thrown again\<close>

text \<open>
  What a caller that awaits a promise observes: its value, its rejection, or nothing at
  all when no handler ever settles it.
\<close>

datatype 'a promise = Resolved 'a | Rejected error | Pending

subsection \<open>The two stores and the platform\<close>

text \<open>
  A string kept in \<open>localStorage\<close> is represented by what \<open>JSON.parse\<close> makes of
  it. \<open>Unparsable s\<close> is a text \<open>s\<close> that \<open>JSON.parse\<close> rejects with a
  \<open>SyntaxError\<close>; the empty text is one of them, and it is the only string that is
  falsy. \<open>Wellformed v\<close> is the JSON text of a value of the shape the key is declared
  to hold (an array for users, completions and legacy videos, a plain object for
  progress). \<open>Malformed j\<close> is the JSON text of any other value.
\<close>

datatype other_json =
  JNull | JBool bool | JNum int | JStr string
  | JContainer \<comment> \<open>an object where an array is expected, an array where an object is\<close>

datatype 'a item = Unparsable string | Malformed other_json | Wellformed 'a

text \<open>How the platform answers: each field is one way a call of the source can fail.\<close>

datatype write_fault =
  NoFault
  | CallThrows \<comment> \<open>\<open>store.put\<close>/\<open>add\<close>/\<open>delete\<close> raises, e.g. the connection is closing\<close>
  | RequestFails \<comment> \<open>the request fires \<open>error\<close>; unhandled, it aborts the transaction\<close>
  | CommitAborts \<comment> \<open>every request succeeds, the commit fails: \<open>abort\<close> fires, not \<open>error\<close>\<close>

datatype setItem_fault =
  NoThrow | QuotaExceededError | NS_ERROR_DOM_QUOTA_REACHED | OtherException

text \<open>
  \<^item> \<open>db\<close>: the module variable \<open>db\<close> holds an open handle.
  \<^item> \<open>idb\<close>: the object store \<open>videos\<close> of the database \<open>EduPortalDB\<close>, its
    records in key order (the order \<open>getAll\<close> returns them in); \<open>None\<close> while the
    database has not been created.
  \<^item> \<open>users_item\<close>, \<open>videos_item\<close>: \<open>localStorage\<close> under \<open>USERS_KEY\<close> and under
    the legacy \<open>VIDEOS_KEY\<close>; \<open>completions_item u\<close>, \<open>progress_item u\<close>: under
    \<open>getCompletionsKey(u)\<close> and \<open>getProgressKey(u)\<close>. No two of these keys are the
    same string.
  \<^item> \<open>initialUsers\<close>, \<open>initialVideos\<close>: the arrays exported by \<open>./initialData\<close>.
    \<open>initialUsers\<close> is state: \<open>getUsers\<close> hands the array itself to callers that
    write into it.
  \<^item> \<open>open_error\<close> to \<open>setItem_fault\<close>: how IndexedDB and \<open>localStorage\<close> answer.
  \<^item> \<open>toLowerCase\<close>: \<open>String.prototype.toLowerCase\<close> of the platform, a case
    mapping over all of Unicode. The embedding fixes nothing about it.
  \<^item> \<open>array_sort\<close>: \<open>Array.prototype.sort\<close> of the platform, called with a
    comparison function; \<open>None\<close> is the comparator's \<open>NaN\<close>. The language fixes
    the result when the comparator is a consistent ordering (the stable sort) and
    leaves the order to the engine otherwise; the embedding fixes nothing about it
    either, and a theorem that needs the language's guarantee assumes it.
\<close>

record world =
  db :: bool
  idb :: "video list option"
  users_item :: "user list item option"
  videos_item :: "video list item option"
  completions_item :: "string \<Rightarrow> string list item option"
  progress_item :: "string \<Rightarrow> user_progress item option"
  initialUsers :: "user list"
  initialVideos :: "video list"
  open_error :: bool
  read_error :: bool
  write_fault :: write_fault
  setItem_fault :: setItem_fault
  toLowerCase :: "string \<Rightarrow> string"
  array_sort :: "(video \<Rightarrow> video \<Rightarrow> int option) \<Rightarrow> video list \<Rightarrow> video list"

definition records :: "world \<Rightarrow> video list" where
  "records w = (case idb w of None \<Rightarrow> [] | Some S \<Rightarrow> S)"

subsection \<open>Utility functions to interact with \<open>localStorage\<close>\<close>

text \<open>
  \<open>getFromStorage\<close> takes the result of \<open>localStorage.getItem(key)\<close>. A missing key
  and the empty text are falsy; a text that does not parse lands in the \<open>catch\<close>.
  The result is whatever \<open>JSON.parse\<close> returns: \<open>Inl\<close> a value of the wrong shape.
\<close>

definition getFromStorage :: "'a item option \<Rightarrow> 'a \<Rightarrow> other_json + 'a" where
  "getFromStorage item defaultValue =
     (case item of
        None \<Rightarrow> Inr defaultValue
      | Some (Unparsable s) \<Rightarrow> Inr defaultValue
      | Some (Malformed j) \<Rightarrow> Inl j
      | Some (Wellformed v) \<Rightarrow> Inr v)"

text \<open>\<open>saveToStorage\<close> takes the write \<open>localStorage.setItem(key, JSON.stringify(value))\<close>.\<close>

definition saveToStorage :: "world \<Rightarrow> (world \<Rightarrow> world) \<Rightarrow> error + world" where
  "saveToStorage w setItem =
     (case setItem_fault w of
        NoThrow \<Rightarrow> Inr (setItem w)
      | QuotaExceededError \<Rightarrow> Inl QuotaExceeded
      | NS_ERROR_DOM_QUOTA_REACHED \<Rightarrow> Inl QuotaExceeded
      | OtherException \<Rightarrow> Inl WriteError)"

definition set_users :: "user list \<Rightarrow> world \<Rightarrow> world" where
  "set_users us w = w\<lparr>users_item := Some (Wellformed us)\<rparr>"

definition set_completions :: "string \<Rightarrow> string list \<Rightarrow> world \<Rightarrow> world" where
  "set_completions userId ids w =
     w\<lparr>completions_item := (completions_item w)(userId := Some (Wellformed ids))\<rparr>"

definition set_progress :: "string \<Rightarrow> user_progress \<Rightarrow> world \<Rightarrow> world" where
  "set_progress userId p w =
     w\<lparr>progress_item := (progress_item w)(userId := Some (Wellformed p))\<rparr>"

text \<open>The decimal text of \<open>Date.now()\<close> in a template literal.\<close>

fun decimal :: "nat \<Rightarrow> string" where
  "decimal n =
     (if n < 10 then [char_of (48 + n)]
      else decimal (n div 10) @ [char_of (48 + n mod 10)])"

declare decimal.simps [simp del]

subsection \<open>User management\<close>

text \<open>
  \<open>getUsers\<close> returns the array and whether it is the array \<open>initialUsers\<close> itself
  (after a reset) rather than a fresh one from \<open>JSON.parse\<close> or the default \<open>[]\<close>.
\<close>

definition getUsers :: "world \<Rightarrow> (error + user list \<times> bool) \<times> world" where
  "getUsers w =
     (case getFromStorage (users_item w) [] of
        Inl j \<Rightarrow>
          (case saveToStorage w (set_users (initialUsers w)) of
             Inl e \<Rightarrow> (Inl e, w)
           | Inr w' \<Rightarrow> (Inr (initialUsers w', True), w'))
      | Inr users \<Rightarrow> (Inr (users, False), w))"

text \<open>A write into the array \<open>users\<close> is a write into \<open>initialUsers\<close> when they are one array.\<close>

definition mutate_users :: "bool \<Rightarrow> user list \<Rightarrow> world \<Rightarrow> world" where
  "mutate_users shared users w = (if shared then w\<lparr>initialUsers := users\<rparr> else w)"

definition withoutPassword :: "user \<Rightarrow> user" where
  "withoutPassword u = u\<lparr>password := None\<rparr>"

definition authenticateUser :: "world \<Rightarrow> string \<Rightarrow> string \<Rightarrow> (error + user option) \<times> world" where
  "authenticateUser w email_sent password_sent =
     (case getUsers w of
        (Inl e, w1) \<Rightarrow> (Inl e, w1)
      | (Inr (users, shared), w1) \<Rightarrow>
          (case find (\<lambda>u. toLowerCase w1 (email u) = toLowerCase w1 email_sent) users of
             None \<Rightarrow> (Inr None, w1)
           | Some u \<Rightarrow>
               if password u = Some password_sent then (Inr (Some (withoutPassword u)), w1)
               else (Inr None, w1)))"

text \<open>
  \<open>userData\<close> is an \<open>Omit<User, 'id' | 'type' | 'status'>\<close>: a user whose three
  omitted fields are overwritten before they are read. \<open>now\<close> is \<open>Date.now()\<close>.
\<close>

definition registerStudent :: "nat \<Rightarrow> world \<Rightarrow> user \<Rightarrow> (error + user option) \<times> world" where
  "registerStudent now w userData =
     (case getUsers w of
        (Inl e, w1) \<Rightarrow> (Inl e, w1)
      | (Inr (users, shared), w1) \<Rightarrow>
          if list_ex (\<lambda>u. toLowerCase w1 (email u) = toLowerCase w1 (email userData)) users
          then (Inr None, w1)
          else
            let newUser = userData\<lparr>user_id := ''user_'' @ decimal now,
                                   user_type := Student, user_status := Active\<rparr>;
                users' = users @ [newUser];
                w2 = mutate_users shared users' w1
            in (case saveToStorage w2 (set_users users') of
                  Inl e \<Rightarrow> (Inl e, w2)
                | Inr w3 \<Rightarrow> (Inr (Some (withoutPassword newUser)), w3)))"

text \<open>The spread \<open>{ ...users[userIndex], ...updatedData }\<close>.\<close>

definition merge_user :: "user \<Rightarrow> user_patch \<Rightarrow> user" where
  "merge_user u p =
     \<lparr>user_id = (case patch_user_id p of None \<Rightarrow> user_id u | Some x \<Rightarrow> x),
      user_name = (case patch_user_name p of None \<Rightarrow> user_name u | Some x \<Rightarrow> x),
      email = (case patch_email p of None \<Rightarrow> email u | Some x \<Rightarrow> x),
      password = (case patch_password p of None \<Rightarrow> password u | Some x \<Rightarrow> Some x),
      user_type = (case patch_user_type p of None \<Rightarrow> user_type u | Some x \<Rightarrow> x),
      user_class = (case patch_user_class p of None \<Rightarrow> user_class u | Some x \<Rightarrow> Some x),
      user_status = (case patch_user_status p of None \<Rightarrow> user_status u | Some x \<Rightarrow> x)\<rparr>"

fun findIndex :: "('a \<Rightarrow> bool) \<Rightarrow> 'a list \<Rightarrow> nat option" where
  "findIndex P [] = None"
| "findIndex P (x # xs) =
     (if P x then Some 0 else (case findIndex P xs of None \<Rightarrow> None | Some i \<Rightarrow> Some (Suc i)))"

definition updateUserProfile ::
  "world \<Rightarrow> string \<Rightarrow> user_patch \<Rightarrow> (error + user option) \<times> world" where
  "updateUserProfile w userId updatedData =
     (case getUsers w of
        (Inl e, w1) \<Rightarrow> (Inl e, w1)
      | (Inr (users, shared), w1) \<Rightarrow>
          (case findIndex (\<lambda>u. user_id u = userId) users of
             None \<Rightarrow> (Inr None, w1)
           | Some userIndex \<Rightarrow>
               let users' = users[userIndex := merge_user (users ! userIndex) updatedData];
                   w2 = mutate_users shared users' w1
               in (case saveToStorage w2 (set_users users') of
                     Inl e \<Rightarrow> (Inl e, w2)
                   | Inr w3 \<Rightarrow> (Inr (Some (withoutPassword (users' ! userIndex))), w3))))"

text \<open>\<open>user.password = newPass\<close> writes into the element \<open>find\<close> returned.\<close>

definition changePassword ::
  "world \<Rightarrow> string \<Rightarrow> string \<Rightarrow> string \<Rightarrow> (error + bool) \<times> world" where
  "changePassword w userId oldPass newPass =
     (case getUsers w of
        (Inl e, w1) \<Rightarrow> (Inl e, w1)
      | (Inr (users, shared), w1) \<Rightarrow>
          (case findIndex (\<lambda>u. user_id u = userId) users of
             None \<Rightarrow> (Inr False, w1)
           | Some i \<Rightarrow>
               if password (users ! i) = Some oldPass
               then
                 let users' = users[i := (users ! i)\<lparr>password := Some newPass\<rparr>];
                     w2 = mutate_users shared users' w1
                 in (case saveToStorage w2 (set_users users') of
                       Inl e \<Rightarrow> (Inl e, w2)
                     | Inr w3 \<Rightarrow> (Inr True, w3))
               else (Inr False, w1)))"

definition deleteUser :: "world \<Rightarrow> string \<Rightarrow> (error + unit) \<times> world" where
  "deleteUser w userId =
     (case getUsers w of
        (Inl e, w1) \<Rightarrow> (Inl e, w1)
      | (Inr (users, shared), w1) \<Rightarrow>
          (case saveToStorage w1 (set_users (filter (\<lambda>u. user_id u \<noteq> userId) users)) of
             Inl e \<Rightarrow> (Inl e, w1)
           | Inr w2 \<Rightarrow> (Inr (), w2)))"

subsection \<open>The object store and its transactions\<close>

text \<open>
  The store has the key path \<open>id\<close>: one record per key, iterated in key order. Keys
  are strings, ordered as IndexedDB orders them: position by position, a proper prefix
  first.
\<close>

definition store_get :: "string \<Rightarrow> video list \<Rightarrow> video option" where
  "store_get k S = find (\<lambda>v. video_id v = k) S"

definition store_delete :: "string \<Rightarrow> video list \<Rightarrow> video list" where
  "store_delete k S = filter (\<lambda>v. video_id v \<noteq> k) S"

definition store_put :: "video \<Rightarrow> video list \<Rightarrow> video list" where
  "store_put v S = insort_key video_id v (store_delete (video_id v) S)"

datatype request = Put video | Add video | Delete string

text \<open>A request on the working copy of a transaction; \<open>add\<close> fails on a key that is present.\<close>

fun apply_request :: "request \<Rightarrow> video list \<Rightarrow> video list option" where
  "apply_request (Put v) S = Some (store_put v S)"
| "apply_request (Add v) S =
     (if store_get (video_id v) S = None then Some (insort_key video_id v S) else None)"
| "apply_request (Delete k) S = Some (store_delete k S)"

fun apply_requests :: "request list \<Rightarrow> video list \<Rightarrow> video list option" where
  "apply_requests [] S = Some S"
| "apply_requests (r # rs) S =
     (case apply_request r S of None \<Rightarrow> None | Some S' \<Rightarrow> apply_requests rs S')"

text \<open>
  How a \<open>readwrite\<close> transaction with the given requests ends. The source never calls
  \<open>preventDefault\<close>, so a failed request aborts the transaction, and an aborted
  transaction leaves the store as it was. A transaction without requests completes.
\<close>

datatype tx_outcome =
  Committed \<comment> \<open>\<open>complete\<close> fires; the writes are in the store\<close>
  | Threw \<comment> \<open>the call raised; nothing was queued\<close>
  | Failed error \<comment> \<open>a request fired \<open>error\<close>, which bubbles to the transaction\<close>
  | Aborted \<comment> \<open>every request fired \<open>success\<close>; then \<open>abort\<close> fires\<close>

definition transaction :: "world \<Rightarrow> request list \<Rightarrow> tx_outcome \<times> world" where
  "transaction w reqs =
     (if reqs = [] then (Committed, w)
      else case write_fault w of
        CallThrows \<Rightarrow> (Threw, w)
      | RequestFails \<Rightarrow> (Failed RequestError, w)
      | CommitAborts \<Rightarrow>
          (case apply_requests reqs (records w) of
             None \<Rightarrow> (Failed ConstraintError, w)
           | Some S \<Rightarrow> (Aborted, w))
      | NoFault \<Rightarrow>
          (case apply_requests reqs (records w) of
             None \<Rightarrow> (Failed ConstraintError, w)
           | Some S \<Rightarrow> (Committed, w\<lparr>idb := Some S\<rparr>)))"

text \<open>\<open>await\<close> inside an \<open>async\<close> function: a rejection leaves the function.\<close>

definition await ::
  "'a promise \<times> world \<Rightarrow> ('a \<Rightarrow> world \<Rightarrow> 'b promise \<times> world) \<Rightarrow> 'b promise \<times> world" where
  "await m f =
     (case m of
        (Resolved x, w) \<Rightarrow> f x w
      | (Rejected e, w) \<Rightarrow> (Rejected e, w)
      | (Pending, w) \<Rightarrow> (Pending, w))"

subsection \<open>DB initialization\<close>

text \<open>
  \<open>indexedDB.open\<close> fires \<open>upgradeneeded\<close> when the database is new, and the
  handler creates the object store.
\<close>

definition openDB :: "world \<Rightarrow> unit promise \<times> world" where
  "openDB w =
     (if db w then (Resolved (), w)
      else if open_error w then (Rejected OpenError, w)
      else (Resolved (), w\<lparr>db := True, idb := Some (records w)\<rparr>))"

definition removeItem_VIDEOS_KEY :: "world \<Rightarrow> world" where
  "removeItem_VIDEOS_KEY w = w\<lparr>videos_item := None\<rparr>"

text \<open>
  The whole body is inside \<open>try\<close>: a rejected \<open>openDB\<close>, a rejected \<open>Promise.all\<close>
  and a \<open>SyntaxError\<close> are logged, and the promise resolves. \<open>Promise.all\<close> is
  resolved once every \<open>put\<close> has fired \<open>success\<close>, before the commit.
\<close>

definition migrateLocalStorageToIndexedDB :: "world \<Rightarrow> world" where
  "migrateLocalStorageToIndexedDB w =
     (case videos_item w of
        None \<Rightarrow> w
      | Some (Unparsable s) \<Rightarrow> w
      | Some (Malformed j) \<Rightarrow> removeItem_VIDEOS_KEY w
      | Some (Wellformed lsVideos) \<Rightarrow>
          if lsVideos = [] then removeItem_VIDEOS_KEY w
          else
            (case openDB w of
               (Resolved database, w1) \<Rightarrow>
                 (case transaction w1 (map Put lsVideos) of
                    (Committed, w2) \<Rightarrow> removeItem_VIDEOS_KEY w2
                  | (Aborted, w2) \<Rightarrow> removeItem_VIDEOS_KEY w2
                  | (Threw, w2) \<Rightarrow> w2
                  | (Failed e, w2) \<Rightarrow> w2)
             | (Rejected e, w1) \<Rightarrow> w1
             | (Pending, w1) \<Rightarrow> w1))"

text \<open>\<open>!localStorage.getItem(USERS_KEY)\<close>: the key is missing or holds the empty text.\<close>

definition no_users_item :: "world \<Rightarrow> bool" where
  "no_users_item w = (users_item w = None \<or> users_item w = Some (Unparsable []))"

text \<open>
  The seeding transaction has no handler and \<open>resolve()\<close> follows the \<open>add\<close> calls
  at once; a call that raises leaves the \<open>async\<close> handler before \<open>resolve()\<close>.
  A later transaction on the store starts after this one has ended, so the world
  returned is the one later operations see.
\<close>

definition initDB :: "world \<Rightarrow> unit promise \<times> world" where
  "initDB w =
     await (openDB w) (\<lambda>database w1.
       case (if no_users_item w1 then saveToStorage w1 (set_users (initialUsers w1))
             else Inr w1) of
         Inl e \<Rightarrow> (Rejected e, w1)
       | Inr w2 \<Rightarrow>
           if read_error w2 then (Resolved (), w2)
           else if length (records w2) = 0 then
             let w3 = migrateLocalStorageToIndexedDB w2 in
             if length (records w3) = 0 then
               (case transaction w3 (map Add (initialVideos w3)) of
                  (Threw, w4) \<Rightarrow> (Pending, w4)
                | (outcome, w4) \<Rightarrow> (Resolved (), w4))
             else (Resolved (), w3)
           else (Resolved (), migrateLocalStorageToIndexedDB w2))"

subsection \<open>Video management\<close>

definition getRawVideos :: "world \<Rightarrow> video list promise \<times> world" where
  "getRawVideos w =
     await (openDB w) (\<lambda>database w1.
       if read_error w1 then (Rejected RequestError, w1)
       else (Resolved (records w1), w1))"

text \<open>
  \<open>getTime s\<close> is \<open>new Date(s).getTime()\<close>, \<open>None\<close> for \<open>NaN\<close> (an invalid date).
  The comparator is \<open>new Date(b.uploadedAt).getTime() - new Date(a.uploadedAt).getTime()\<close>.
\<close>

definition compare_uploadedAt :: "(string \<Rightarrow> int option) \<Rightarrow> video \<Rightarrow> video \<Rightarrow> int option" where
  "compare_uploadedAt getTime a b =
     (case (getTime (uploadedAt b), getTime (uploadedAt a)) of
        (Some tb, Some ta) \<Rightarrow> Some (tb - ta)
      | _ \<Rightarrow> None)"

definition mark_completed :: "string list \<Rightarrow> video \<Rightarrow> video" where
  "mark_completed completedVideoIds v = v\<lparr>completed := Some (video_id v \<in> set completedVideoIds)\<rparr>"

text \<open>\<open>!userId\<close> holds for a missing argument and for the empty string.\<close>

definition getVideos ::
  "(string \<Rightarrow> int option) \<Rightarrow> world \<Rightarrow> string option \<Rightarrow> video list promise \<times> world" where
  "getVideos getTime w userId =
     await (getRawVideos w) (\<lambda>fetched w1.
       let allVideos = array_sort w1 (compare_uploadedAt getTime) fetched in
       case userId of
         None \<Rightarrow> (Resolved allVideos, w1)
       | Some uid \<Rightarrow>
           if uid = [] then (Resolved allVideos, w1)
           else
             (case getFromStorage (completions_item w1 uid) [] of
                Inl j \<Rightarrow>
                  (case saveToStorage w1 (set_completions uid []) of
                     Inl e \<Rightarrow> (Rejected e, w1)
                   | Inr w2 \<Rightarrow> (Resolved (map (mark_completed []) allVideos), w2))
              | Inr completedVideoIds \<Rightarrow>
                  (Resolved (map (mark_completed completedVideoIds) allVideos), w1)))"


text \<open>The spread \<open>{ ...video, ...updatedData }\<close>.\<close>

definition merge_video :: "video \<Rightarrow> video_patch \<Rightarrow> video" where
  "merge_video v p =
     \<lparr>video_id = (case patch_video_id p of None \<Rightarrow> video_id v | Some x \<Rightarrow> x),
      title = (case patch_title p of None \<Rightarrow> title v | Some x \<Rightarrow> x),
      description = (case patch_description p of None \<Rightarrow> description v | Some x \<Rightarrow> x),
      subject = (case patch_subject p of None \<Rightarrow> subject v | Some x \<Rightarrow> x),
      video_class = (case patch_video_class p of None \<Rightarrow> video_class v | Some x \<Rightarrow> x),
      duration = (case patch_duration p of None \<Rightarrow> duration v | Some x \<Rightarrow> x),
      views = (case patch_views p of None \<Rightarrow> views v | Some x \<Rightarrow> x),
      completed = (case patch_completed p of None \<Rightarrow> completed v | Some x \<Rightarrow> Some x),
      video_status = (case patch_video_status p of None \<Rightarrow> video_status v | Some x \<Rightarrow> x),
      thumbnailUrl = (case patch_thumbnailUrl p of None \<Rightarrow> thumbnailUrl v | Some x \<Rightarrow> x),
      videoUrls = (case patch_videoUrls p of None \<Rightarrow> videoUrls v | Some x \<Rightarrow> x),
      tags = (case patch_tags p of None \<Rightarrow> tags v | Some x \<Rightarrow> Some x),
      uploadedAt = (case patch_uploadedAt p of None \<Rightarrow> uploadedAt v | Some x \<Rightarrow> x)\<rparr>"

text \<open>
  \<open>put\<close> is called inside the \<open>success\<close> handler of \<open>get\<close>: when the call raises,
  no handler settles the promise.
\<close>

definition updateVideo ::
  "world \<Rightarrow> string \<Rightarrow> video_patch \<Rightarrow> video option promise \<times> world" where
  "updateVideo w videoId updatedData =
     await (openDB w) (\<lambda>database w1.
       if read_error w1 then (Rejected RequestError, w1)
       else
         (case store_get videoId (records w1) of
            None \<Rightarrow> (Resolved None, w1)
          | Some video \<Rightarrow>
              let updatedVideo = merge_video video updatedData in
              (case transaction w1 [Put updatedVideo] of
                 (Committed, w2) \<Rightarrow> (Resolved (Some updatedVideo), w2)
               | (Aborted, w2) \<Rightarrow> (Resolved (Some updatedVideo), w2)
               | (Threw, w2) \<Rightarrow> (Pending, w2)
               | (Failed e, w2) \<Rightarrow> (Rejected e, w2))))"


definition updateVideoCompletion ::
  "world \<Rightarrow> string \<Rightarrow> string \<Rightarrow> bool \<Rightarrow> (error + unit) \<times> world" where
  "updateVideoCompletion w userId videoId isCompleted =
     (let completedVideoIds =
            (case getFromStorage (completions_item w userId) [] of
               Inl j \<Rightarrow> []
             | Inr ids \<Rightarrow> ids);
          completedVideoIds' =
            (if isCompleted then
               (if videoId \<in> set completedVideoIds then completedVideoIds
                else completedVideoIds @ [videoId])
             else filter (\<lambda>i. i \<noteq> videoId) completedVideoIds)
      in case saveToStorage w (set_completions userId completedVideoIds') of
           Inl e \<Rightarrow> (Inl e, w)
         | Inr w' \<Rightarrow> (Inr (), w'))"

subsection \<open>Batch operations\<close>

text \<open>\<open>Promise.all\<close> over the \<open>delete\<close> requests of one transaction.\<close>

definition deleteMultipleVideos :: "world \<Rightarrow> string list \<Rightarrow> unit promise \<times> world" where
  "deleteMultipleVideos w videoIds =
     await (openDB w) (\<lambda>database w1.
       case transaction w1 (map Delete videoIds) of
         (Committed, w2) \<Rightarrow> (Resolved (), w2)
       | (Aborted, w2) \<Rightarrow> (Resolved (), w2)
       | (Threw, w2) \<Rightarrow> (Rejected CallError, w2)
       | (Failed e, w2) \<Rightarrow> (Rejected e, w2))"

text \<open>
  The \<open>forEach\<close> loops. \<open>videos\<close> is the array \<open>getRawVideos\<close> returned; the loop
  writes into the element \<open>find\<close> returns, so a second occurrence of an id finds the
  record as the first one left it. The result is the records the loop hands to
  \<open>put\<close>, in order, were every call to return.
\<close>

fun status_puts :: "video_status \<Rightarrow> string list \<Rightarrow> video list \<Rightarrow> video list" where
  "status_puts status [] videos = []"
| "status_puts status (i # ids) videos =
     (case findIndex (\<lambda>v. video_id v = i) videos of
        None \<Rightarrow> status_puts status ids videos
      | Some n \<Rightarrow>
          let video = (videos ! n)\<lparr>video_status := status\<rparr>
          in video # status_puts status ids (videos[n := video]))"

text \<open>\<open>[...new Set(xs)]\<close>: the first occurrence of each element, in order.\<close>

fun unique :: "'a list \<Rightarrow> 'a list" where
  "unique [] = []"
| "unique (x # xs) = x # unique (filter (\<lambda>y. y \<noteq> x) xs)"

fun tags_puts :: "string list \<Rightarrow> string list \<Rightarrow> video list \<Rightarrow> video list" where
  "tags_puts tagsToAdd [] videos = []"
| "tags_puts tagsToAdd (i # ids) videos =
     (case findIndex (\<lambda>v. video_id v = i) videos of
        None \<Rightarrow> tags_puts tagsToAdd ids videos
      | Some n \<Rightarrow>
          let existingTags = (case tags (videos ! n) of None \<Rightarrow> [] | Some ts \<Rightarrow> ts);
              newTags = unique (existingTags @ tagsToAdd);
              video = (videos ! n)\<lparr>tags := Some newTags\<rparr>
          in video # tags_puts tagsToAdd ids (videos[n := video]))"

text \<open>
  Both functions create the transaction, then \<open>await getRawVideos()\<close>, and only
  then call \<open>store.put\<close>. A transaction is active in the task that creates it
  and in the handlers of its own requests; with no request placed it commits when
  control returns to the event loop. \<open>getRawVideos\<close> settles from the \<open>success\<close>
  or \<open>error\<close> handler of a request of another transaction, in a later task. So when
  the \<open>forEach\<close> loop runs the transaction has finished: the first \<open>put\<close>
  raises \<open>TransactionInactiveError\<close>, which leaves the \<open>async\<close> function, and
  nothing is written. When the loop calls no \<open>put\<close>, the promise returned waits for
  a \<open>complete\<close> that has fired already, and never settles.
\<close>

definition finished_transaction :: "world \<Rightarrow> video list \<Rightarrow> unit promise \<times> world" where
  "finished_transaction w puts =
     (case puts of
        [] \<Rightarrow> (Pending, w)
      | video # later \<Rightarrow> (Rejected TransactionInactiveError, w))"

definition updateMultipleVideosStatus ::
  "world \<Rightarrow> string list \<Rightarrow> video_status \<Rightarrow> unit promise \<times> world" where
  "updateMultipleVideosStatus w videoIds status =
     await (openDB w) (\<lambda>database w1.
       await (getRawVideos w1) (\<lambda>videos w2.
         finished_transaction w2 (status_puts status videoIds videos)))"

definition addTagsToMultipleVideos ::
  "world \<Rightarrow> string list \<Rightarrow> string list \<Rightarrow> unit promise \<times> world" where
  "addTagsToMultipleVideos w videoIds tagsToAdd =
     await (openDB w) (\<lambda>database w1.
       await (getRawVideos w1) (\<lambda>videos w2.
         finished_transaction w2 (tags_puts tagsToAdd videoIds videos)))"

subsection \<open>Progress tracking\<close>

definition getProgressForUser :: "world \<Rightarrow> string \<Rightarrow> (error + user_progress) \<times> world" where
  "getProgressForUser w userId =
     (case getFromStorage (progress_item w userId) [] of
        Inl j \<Rightarrow>
          (case saveToStorage w (set_progress userId []) of
             Inl e \<Rightarrow> (Inl e, w)
           | Inr w' \<Rightarrow> (Inr [], w'))
      | Inr p \<Rightarrow> (Inr p, w))"

subsection \<open>The notions the specification uses\<close>

text \<open>
  The user table as the module reads it, and the invariant the specification states
  for it: no two users with the same email, letter case ignored.
\<close>

definition user_table :: "world \<Rightarrow> user list" where
  "user_table w = (case users_item w of Some (Wellformed users) \<Rightarrow> users | _ \<Rightarrow> [])"

definition unique_emails :: "(string \<Rightarrow> string) \<Rightarrow> user list \<Rightarrow> bool" where
  "unique_emails lower users = distinct (map (\<lambda>u. lower (email u)) users)"




text \<open>A delete batch applied in full: every stored record whose id is in the list is gone.\<close>

definition all_deleted :: "string list \<Rightarrow> video list \<Rightarrow> video list" where
  "all_deleted ids S = filter (\<lambda>v. video_id v \<notin> set ids) S"

text \<open>The platform answers every call without fault.\<close>

definition no_faults :: "world \<Rightarrow> bool" where
  "no_faults w \<longleftrightarrow>
     \<not> open_error w \<and> \<not> read_error w \<and> write_fault w = NoFault \<and> setItem_fault w = NoThrow"

text \<open>The key holds a text that \<open>JSON.parse\<close> rejects.\<close>

definition unparsable :: "'a item option \<Rightarrow> bool" where
  "unparsable x = (case x of Some (Unparsable s) \<Rightarrow> True | _ \<Rightarrow> False)"

text \<open>
  A state \<open>w'\<close> reached from \<open>w\<close> on which startup has nothing left to do: the
  handle is open, the user table is there, the legacy key is gone (or still holds the
  unparsable text it held in \<open>w\<close>), and an empty store cannot be seeded.
\<close>

definition settled :: "world \<Rightarrow> world \<Rightarrow> bool" where
  "settled w w' \<longleftrightarrow>
     db w' \<and> no_faults w' \<and> \<not> no_users_item w' \<and>
     (videos_item w' = None \<or> (unparsable (videos_item w) \<and> videos_item w' = videos_item w)) \<and>
     (records w' = [] \<longrightarrow>
        initialVideos w' = [] \<or> apply_requests (map Add (initialVideos w')) [] = None)"

subsection \<open>Example states\<close>

text \<open>
  Concrete users, videos and states on which the theorems below are instantiated, all
  in ASCII. On ASCII strings \<open>String.prototype.toLowerCase\<close> maps the letters A to Z
  to a to z and leaves every other character as it is.
\<close>

definition lower_char :: "char \<Rightarrow> char" where
  "lower_char c =
     (if CHR ''A'' \<le> c \<and> c \<le> CHR ''Z'' then char_of (of_char c + (32::nat)) else c)"

definition ascii_toLowerCase :: "string \<Rightarrow> string" where
  "ascii_toLowerCase s = map lower_char s"

text \<open>
  One sort that meets the language's guarantee: a stable sort by insertion, last
  element first, each element going in front of the elements already placed, past
  those it compares above. \<open>NaN\<close> is read as \<open>+0\<close>, as \<open>Array.prototype.sort\<close>
  reads it.
\<close>

fun insert_by :: "(video \<Rightarrow> video \<Rightarrow> int option) \<Rightarrow> video \<Rightarrow> video list \<Rightarrow> video list" where
  "insert_by cmp x [] = [x]"
| "insert_by cmp x (y # ys) =
     (if (case cmp x y of None \<Rightarrow> 0 | Some d \<Rightarrow> d) \<le> 0 then x # y # ys
      else y # insert_by cmp x ys)"

definition insertion_sort :: "(video \<Rightarrow> video \<Rightarrow> int option) \<Rightarrow> video list \<Rightarrow> video list" where
  "insertion_sort cmp xs = foldr (insert_by cmp) xs []"

definition alice :: user where
  "alice = \<lparr>user_id = ''user_1'', user_name = ''Alice'', email = ''Alice@School.org'',
            password = Some ''wonder'', user_type = Student, user_class = Some Class8,
            user_status = Disabled\<rparr>"

definition bob :: user where
  "bob = \<lparr>user_id = ''user_2'', user_name = ''Bob'', email = ''bob@school.org'',
          password = Some ''builder'', user_type = Admin, user_class = None,
          user_status = Active\<rparr>"

definition lesson :: "string \<Rightarrow> string \<Rightarrow> video" where
  "lesson i t = \<lparr>video_id = i, title = ''Lesson'', description = [], subject = Science,
                 video_class = Class8, duration = ''24:15'', views = 0, completed = None,
                 video_status = Draft, thumbnailUrl = [], videoUrls = [], tags = None,
                 uploadedAt = t\<rparr>"

definition fresh :: world where
  "fresh = \<lparr>db = False, idb = None, users_item = None, videos_item = None,
            completions_item = (\<lambda>u. None), progress_item = (\<lambda>u. None),
            initialUsers = [bob], initialVideos = [lesson ''v1'' ''2024-01-01''],
            open_error = False, read_error = False, write_fault = NoFault,
            setItem_fault = NoThrow, toLowerCase = ascii_toLowerCase,
            array_sort = insertion_sort\<rparr>"

definition school :: world where
  "school = fresh\<lparr>db := True,
                  idb := Some [lesson ''v1'' ''2024-01-01'', lesson ''v2'' ''2024-03-01'',
                               lesson ''v3'' ''2024-01-01''],
                  users_item := Some (Wellformed [bob, alice]),
                  completions_item := (\<lambda>u. if u = ''user_1'' then Some (Wellformed [''v1'', ''v2'']) else None)\<rparr>"

definition carol :: user where
  "carol = alice\<lparr>email := ''carol@school.org'', user_status := Disabled\<rparr>"

definition no_user_patch :: user_patch where
  "no_user_patch = \<lparr>patch_user_id = None, patch_user_name = None, patch_email = None,
                    patch_password = None, patch_user_type = None, patch_user_class = None,
                    patch_user_status = None\<rparr>"

definition no_video_patch :: video_patch where
  "no_video_patch = \<lparr>patch_video_id = None, patch_title = None, patch_description = None,
      patch_subject = None, patch_video_class = None, patch_duration = None,
      patch_views = None, patch_completed = None, patch_video_status = None,
      patch_thumbnailUrl = None, patch_videoUrls = None, patch_tags = None,
      patch_uploadedAt = None\<rparr>"

definition corrupted :: world where
  "corrupted = school\<lparr>users_item := Some (Unparsable ''not json''),
                        completions_item := (\<lambda>u. Some (Malformed JNull)),
                        progress_item := (\<lambda>u. Some (Malformed (JStr ''x'')))\<rparr>"

definition day :: "string \<Rightarrow> int option" where
  "day s = (if s = ''2024-01-01'' then Some 1704067200000
            else if s = ''2024-03-01'' then Some 1709251200000 else None)"

definition legacy :: world where
  "legacy = fresh\<lparr>videos_item := Some (Wellformed [lesson ''v7'' ''2024-03-01'',
                                                     lesson ''v5'' ''2024-01-01''])\<rparr>"

definition duplicated :: world where
  "duplicated = school\<lparr>users_item :=
                   Some (Wellformed [bob\<lparr>email := ''ALICE@school.org''\<rparr>, alice])\<rparr>"


definition misshapen :: world where
  "misshapen = school\<lparr>users_item := Some (Malformed JContainer)\<rparr>"

section \<open>Properties\<close>

subsection \<open>Users\<close>

lemma find_first:
  "\<forall>x\<in>set pre. \<not> P x \<Longrightarrow> P u \<Longrightarrow> find P (pre @ u # post) = Some u"
  by (induction pre) auto

lemma find_SomeD: "find P xs = Some x \<Longrightarrow> x \<in> set xs \<and> P x"
  by (induction xs) (auto split: if_splits)

text \<open>
  Claim C9 as stated (every stored user whose status is \<open>disabled\<close>) fails when an
  earlier entry of the table has the same email, letter case ignored: \<open>find\<close>
  returns the earlier entry, and the login of the later user is refused.
\<close>

theorem authenticate_later_entry_counterexample:
  "users_item duplicated = Some (Wellformed [bob\<lparr>email := ''ALICE@school.org''\<rparr>, alice]) \<and>
   user_status alice = Disabled \<and> email alice = ''Alice@School.org'' \<and>
   password alice = Some ''wonder'' \<and>
   fst (authenticateUser duplicated ''Alice@School.org'' ''wonder'') = Inr None"
proof -
  have 1: "ascii_toLowerCase ''ALICE@school.org'' = ''alice@school.org''" by code_simp
  have 2: "ascii_toLowerCase ''Alice@School.org'' = ''alice@school.org''" by code_simp
  show ?thesis
    by (simp add: authenticateUser_def getUsers_def getFromStorage_def duplicated_def
          school_def fresh_def bob_def alice_def 1 2)
qed

text \<open>
  Claim C9, as amended. \<open>authenticateUser\<close> never reads the \<open>status\<close> field: a
  stored user whose status is \<open>disabled\<close>, and who is the first user of the table
  with that email, is returned without the password field for every spelling of the
  email that \<open>toLowerCase\<close> maps to the same string as the stored one, when the
  password matches.
\<close>

theorem authenticate_ignores_status:
  assumes "users_item w = Some (Wellformed (pre @ u # post))"
    and "\<forall>x\<in>set pre. toLowerCase w (email x) \<noteq> toLowerCase w (email u)"
    and "user_status u = Disabled"
    and "password u = Some pw"
    and "toLowerCase w e = toLowerCase w (email u)"
  shows "authenticateUser w e pw = (Inr (Some (u\<lparr>password := None\<rparr>)), w)"
proof -
  have "getUsers w = (Inr (pre @ u # post, False), w)"
    using assms(1) by (simp add: getUsers_def getFromStorage_def)
  moreover have "find (\<lambda>x. toLowerCase w (email x) = toLowerCase w e) (pre @ u # post) = Some u"
    using assms(2,5) by (intro find_first) auto
  ultimately show ?thesis
    using assms(4) by (simp add: authenticateUser_def withoutPassword_def)
qed

theorem authenticate_ignores_status_witness:
  "user_status alice = Disabled \<and>
   fst (authenticateUser school ''ALICE@school.ORG'' ''wonder'') = Inr (Some (alice\<lparr>password := None\<rparr>))"
proof -
  have a: "users_item school = Some (Wellformed ([bob] @ alice # []))"
    by (simp add: school_def)
  have l: "toLowerCase school = ascii_toLowerCase"
    by (simp add: school_def fresh_def)
  have b: "\<forall>x\<in>set [bob]. toLowerCase school (email x) \<noteq> toLowerCase school (email alice)"
    unfolding l by code_simp
  have c: "user_status alice = Disabled" by (simp add: alice_def)
  have d: "password alice = Some ''wonder''" by (simp add: alice_def)
  have e: "toLowerCase school ''ALICE@school.ORG'' = toLowerCase school (email alice)"
    unfolding l by code_simp
  show ?thesis
    using c authenticate_ignores_status [OF a b c d e] by simp
qed

lemma saveToStorage_Inr: "saveToStorage w f = Inr w' \<Longrightarrow> w' = f w"
  by (auto simp: saveToStorage_def split: setItem_fault.splits)

lemma getUsers_Inr:
  "getUsers w = (Inr (users, shared), w1) \<Longrightarrow>
     (shared \<and> users = initialUsers w \<and> w1 = set_users (initialUsers w) w \<and>
        (\<exists>j. users_item w = Some (Malformed j))) \<or>
     (\<not> shared \<and> w1 = w \<and> getFromStorage (users_item w) [] = Inr users)"
  by (auto simp: getUsers_def set_users_def getFromStorage_def
           split: sum.splits option.splits item.splits dest!: saveToStorage_Inr)

lemma getUsers_stored:
  "getUsers w = (Inr (users, shared), w1) \<Longrightarrow> users \<noteq> [] \<Longrightarrow>
     users_item w1 = Some (Wellformed users)"
  by (auto simp: getFromStorage_def set_users_def dest!: getUsers_Inr
           split: option.splits item.splits)

text \<open>
  Claim C7. Whenever \<open>authenticateUser\<close> or \<open>registerStudent\<close> returns a user,
  the value returned has no password field, while the record kept in the user table
  still has it.
\<close>

theorem returned_user_has_no_password:
  "(authenticateUser w e pw = (Inr (Some u), w') \<longrightarrow>
      password u = None \<and>
      (\<exists>users stored. users_item w' = Some (Wellformed users) \<and> stored \<in> set users \<and>
         password stored = Some pw \<and> u = stored\<lparr>password := None\<rparr>)) \<and>
   (registerStudent now w userData = (Inr (Some u), w') \<longrightarrow>
      password u = None \<and>
      (\<exists>users stored. users_item w' = Some (Wellformed (users @ [stored])) \<and>
         password stored = password userData \<and> u = stored\<lparr>password := None\<rparr>))"
proof (rule conjI; rule impI)
  assume h: "authenticateUser w e pw = (Inr (Some u), w')"
  obtain r w1 where g: "getUsers w = (r, w1)" by (cases "getUsers w")
  from h g obtain users shared stored where
    r: "r = Inr (users, shared)" and w': "w' = w1"
    and f: "find (\<lambda>x. toLowerCase w1 (email x) = toLowerCase w1 e) users = Some stored"
    and p: "password stored = Some pw" and u: "u = withoutPassword stored"
    by (auto simp: authenticateUser_def split: sum.splits option.splits if_splits)
  from f have m: "stored \<in> set users" by (auto dest: find_SomeD)
  then have "users \<noteq> []" by auto
  with g r have "users_item w1 = Some (Wellformed users)" by (auto dest: getUsers_stored)
  with m p u w'
  show "password u = None \<and>
      (\<exists>users stored. users_item w' = Some (Wellformed users) \<and> stored \<in> set users \<and>
         password stored = Some pw \<and> u = stored\<lparr>password := None\<rparr>)"
    by (auto simp: withoutPassword_def)
next
  assume h: "registerStudent now w userData = (Inr (Some u), w')"
  obtain r w1 where g: "getUsers w = (r, w1)" by (cases "getUsers w")
  define newUser where "newUser = userData\<lparr>user_id := ''user_'' @ decimal now,
                                   user_type := Student, user_status := Active\<rparr>"
  from h g obtain users shared where
    r: "r = Inr (users, shared)"
    and s: "saveToStorage (mutate_users shared (users @ [newUser]) w1) (set_users (users @ [newUser])) = Inr w'"
    and u: "u = withoutPassword newUser"
    by (auto simp: registerStudent_def Let_def newUser_def split: sum.splits if_splits)
  from s have "users_item w' = Some (Wellformed (users @ [newUser]))"
    by (auto simp: set_users_def dest!: saveToStorage_Inr)
  moreover have "password newUser = password userData" by (simp add: newUser_def)
  ultimately
  show "password u = None \<and>
      (\<exists>users stored. users_item w' = Some (Wellformed (users @ [stored])) \<and>
         password stored = password userData \<and> u = stored\<lparr>password := None\<rparr>)"
    using u by (auto simp: withoutPassword_def)
qed

theorem returned_user_has_no_password_witness:
  "authenticateUser school ''bob@school.org'' ''builder''
     = (Inr (Some (bob\<lparr>password := None\<rparr>)), school) \<and>
   password (bob\<lparr>password := None\<rparr>) = None \<and>
   fst (registerStudent 42 school carol)
     = Inr (Some (carol\<lparr>user_id := ''user_42'', user_status := Active,
                        password := None\<rparr>)) \<and>
   password (carol\<lparr>user_id := ''user_42'', user_status := Active,
                        password := None\<rparr>) = None"
proof -
  have a: "authenticateUser school ''bob@school.org'' ''builder''
           = (Inr (Some (bob\<lparr>password := None\<rparr>)), school)"
    by (simp add: authenticateUser_def getUsers_def getFromStorage_def school_def
          fresh_def withoutPassword_def bob_def alice_def ascii_toLowerCase_def lower_char_def)
  have d: "decimal 42 = ''42''" by code_simp
  have n: "\<not> list_ex (\<lambda>u. ascii_toLowerCase (email u) = ascii_toLowerCase (email carol))
                 [bob, alice]"
    by code_simp
  have b: "registerStudent 42 school carol
           = (Inr (Some (carol\<lparr>user_id := ''user_42'', user_status := Active,
                        password := None\<rparr>)),
              set_users ([bob, alice] @ [carol\<lparr>user_id := ''user_42'',
                                                user_status := Active\<rparr>]) school)"
    using n
    by (simp add: registerStudent_def getUsers_def getFromStorage_def school_def fresh_def
          withoutPassword_def d mutate_users_def saveToStorage_def Let_def carol_def alice_def)
  from returned_user_has_no_password [THEN conjunct1, rule_format, OF a]
  have 1: "password (bob\<lparr>password := None\<rparr>) = None" by simp
  from returned_user_has_no_password [THEN conjunct2, rule_format, OF b]
  have 2: "password (carol\<lparr>user_id := ''user_42'', user_status := Active,
                        password := None\<rparr>) = None" by simp
  show ?thesis using a b 1 2 by simp
qed

lemma findIndex_None: "findIndex P xs = None \<longleftrightarrow> (\<forall>x\<in>set xs. \<not> P x)"
  by (induction xs) (auto split: option.splits)

lemma findIndex_Some: "findIndex P xs = Some i \<Longrightarrow> i < length xs \<and> P (xs ! i)"
  by (induction xs arbitrary: i) (auto split: option.splits if_splits)

lemma set_completions_same:
  "completions_item w userId = Some (Wellformed ids) \<Longrightarrow> set_completions userId ids w = w"
  by (simp add: set_completions_def fun_upd_idem)

text \<open>
  Claim C10. On a stored completion list without duplicates, marking a video that is
  already in the list changes nothing, marking a new one appends it once, unmarking
  removes every occurrence, and the list stored afterwards has no duplicates.
\<close>

theorem completion_list_stays_duplicate_free:
  assumes "completions_item w userId = Some (Wellformed ids)"
    and "distinct ids"
    and "setItem_fault w = NoThrow"
  shows "(videoId \<in> set ids \<longrightarrow> updateVideoCompletion w userId videoId True = (Inr (), w)) \<and>
         (videoId \<notin> set ids \<longrightarrow>
            updateVideoCompletion w userId videoId True
              = (Inr (), set_completions userId (ids @ [videoId]) w)) \<and>
         updateVideoCompletion w userId videoId False
           = (Inr (), set_completions userId (filter (\<lambda>i. i \<noteq> videoId) ids) w) \<and>
         videoId \<notin> set (filter (\<lambda>i. i \<noteq> videoId) ids) \<and>
         (\<forall>isCompleted. \<exists>ids'.
            completions_item (snd (updateVideoCompletion w userId videoId isCompleted)) userId
              = Some (Wellformed ids') \<and> distinct ids') \<and>
         (videoId \<in> set ids \<longrightarrow>
            completions_item (snd (updateVideoCompletion w userId videoId True)) userId
              = Some (Wellformed ids)) \<and>
         (videoId \<notin> set ids \<longrightarrow>
            completions_item (snd (updateVideoCompletion w userId videoId True)) userId
              = Some (Wellformed (ids @ [videoId]))) \<and>
         completions_item (snd (updateVideoCompletion w userId videoId False)) userId
           = Some (Wellformed (filter (\<lambda>i. i \<noteq> videoId) ids))"
proof -
  have same: "set_completions userId ids w = w"
    using assms(1) by (rule set_completions_same)
  have stored: "\<And>xs. completions_item (set_completions userId xs w) userId = Some (Wellformed xs)"
    by (simp add: set_completions_def)
  show ?thesis
    using assms same stored
    by (auto simp: updateVideoCompletion_def getFromStorage_def saveToStorage_def)
qed

theorem completion_list_stays_duplicate_free_witness:
  "distinct [''v1'', ''v2''] \<and>
   updateVideoCompletion school ''user_1'' ''v2'' True = (Inr (), school) \<and>
   updateVideoCompletion school ''user_1'' ''v2'' False
     = (Inr (), set_completions ''user_1'' [''v1''] school) \<and>
   completions_item (snd (updateVideoCompletion school ''user_1'' ''v2'' False)) ''user_1''
     = Some (Wellformed [''v1''])"
proof -
  have a: "completions_item school ''user_1'' = Some (Wellformed [''v1'', ''v2''])"
    by (simp add: school_def)
  have b: "distinct [''v1'', ''v2'']" by simp
  have c: "setItem_fault school = NoThrow" by (simp add: school_def fresh_def)
  show ?thesis
    using b completion_list_stays_duplicate_free [OF a b c, of "''v2''"]
    by (simp add: set_completions_def)
qed

text \<open>
  Claim C5 at \<open>updateUserProfile\<close>: the function writes the email of the patch into
  the table without the check that \<open>registerStudent\<close> makes, so a table with unique
  emails becomes one with two users of the same email.
\<close>

theorem updateUserProfile_duplicates_email:
  "unique_emails (toLowerCase school) (user_table school) \<and>
   fst (updateUserProfile school ''user_2'' (no_user_patch\<lparr>patch_email := Some ''ALICE@school.org''\<rparr>))
     = Inr (Some (bob\<lparr>email := ''ALICE@school.org'', password := None\<rparr>)) \<and>
   user_table (snd (updateUserProfile school ''user_2''
       (no_user_patch\<lparr>patch_email := Some ''ALICE@school.org''\<rparr>)))
     = [bob\<lparr>email := ''ALICE@school.org''\<rparr>, alice] \<and>
   \<not> unique_emails (toLowerCase school)
       (user_table (snd (updateUserProfile school ''user_2''
          (no_user_patch\<lparr>patch_email := Some ''ALICE@school.org''\<rparr>))))"
proof -
  have u: "updateUserProfile school ''user_2'' (no_user_patch\<lparr>patch_email := Some ''ALICE@school.org''\<rparr>)
    = (Inr (Some (bob\<lparr>email := ''ALICE@school.org'', password := None\<rparr>)),
       set_users [bob\<lparr>email := ''ALICE@school.org''\<rparr>, alice] school)"
    by (simp add: updateUserProfile_def getUsers_def getFromStorage_def school_def fresh_def
          mutate_users_def saveToStorage_def merge_user_def no_user_patch_def withoutPassword_def
          alice_def bob_def Let_def)
  have l: "toLowerCase school = ascii_toLowerCase"
    by (simp add: school_def fresh_def)
  have 1: "unique_emails ascii_toLowerCase [bob, alice]" by code_simp
  have 2: "\<not> unique_emails ascii_toLowerCase [bob\<lparr>email := ''ALICE@school.org''\<rparr>, alice]"
    by code_simp
  have t: "user_table school = [bob, alice]" by (simp add: user_table_def school_def)
  show ?thesis using 1 2 t by (simp add: u l user_table_def set_users_def)
qed

text \<open>
  The other user operations do keep emails unique, and a registration with an email
  that is taken leaves every store as it was.
\<close>

lemma unique_emails_update:
  "i < length users \<Longrightarrow> email u = email (users ! i) \<Longrightarrow>
     unique_emails lower (users[i := u]) = unique_emails lower users"
  by (simp add: unique_emails_def map_update list_update_same_conv [THEN iffD2])

lemma unique_emails_preserved_elsewhere:
  assumes "users_item w = Some (Wellformed users)" and "unique_emails (toLowerCase w) users"
  shows "unique_emails (toLowerCase w) (user_table (snd (registerStudent now w userData)))"
    and "list_ex (\<lambda>u. toLowerCase w (email u) = toLowerCase w (email userData)) users \<Longrightarrow>
           registerStudent now w userData = (Inr None, w)"
    and "unique_emails (toLowerCase w) (user_table (snd (changePassword w userId oldPass newPass)))"
    and "unique_emails (toLowerCase w) (user_table (snd (deleteUser w userId)))"
proof -
  have g: "getUsers w = (Inr (users, False), w)"
    using assms(1) by (simp add: getUsers_def getFromStorage_def)
  have t: "user_table w = users" using assms(1) by (simp add: user_table_def)
  show "unique_emails (toLowerCase w) (user_table (snd (registerStudent now w userData)))"
    using assms(2) t
    by (auto simp: registerStudent_def g Let_def mutate_users_def saveToStorage_def
          set_users_def user_table_def unique_emails_def list_ex_iff
          split: setItem_fault.splits)
  show "list_ex (\<lambda>u. toLowerCase w (email u) = toLowerCase w (email userData)) users \<Longrightarrow>
           registerStudent now w userData = (Inr None, w)"
    by (simp add: registerStudent_def g)
  show "unique_emails (toLowerCase w) (user_table (snd (changePassword w userId oldPass newPass)))"
    using assms(2) t
    by (auto simp: changePassword_def g Let_def mutate_users_def saveToStorage_def
          set_users_def user_table_def unique_emails_update
          split: setItem_fault.splits option.splits dest!: findIndex_Some)
  show "unique_emails (toLowerCase w) (user_table (snd (deleteUser w userId)))"
    using assms(2) t
    by (auto simp: deleteUser_def g saveToStorage_def set_users_def user_table_def
          unique_emails_def distinct_map_filter split: setItem_fault.splits)
qed

subsection \<open>Videos\<close>

lemma openDB_cases:
  "openDB w = (if db w then (Resolved (), w)
               else if open_error w then (Rejected OpenError, w)
               else (Resolved (), w\<lparr>db := True, idb := Some (records w)\<rparr>))"
  by (simp add: openDB_def)

lemma records_open [simp]: "records (w\<lparr>db := True, idb := Some (records w)\<rparr>) = records w"
  by (simp add: records_def)

text \<open>
  Claim C8 as stated (the mutation throws \<open>NotFound\<close>) fails: on ids that are in
  neither store both mutations return \<open>null\<close>.
\<close>

theorem missing_id_counterexample:
  "fst (updateVideo school ''v9'' no_video_patch) = Resolved None \<and>
   fst (updateUserProfile school ''user_9'' no_user_patch) = Inr None"
  by (simp add: updateVideo_def updateUserProfile_def await_def openDB_def school_def fresh_def
        store_get_def records_def getUsers_def getFromStorage_def lesson_def alice_def bob_def)

text \<open>
  Claim C8, as amended. A mutation on an id that does not exist reports it by the value
  \<open>null\<close> and throws nothing: \<open>updateVideo\<close> resolves with \<open>null\<close> when the
  database opens and reads, and leaves the records as they were; \<open>updateUserProfile\<close>
  returns \<open>null\<close> and leaves every store as it was, when the stored user table is
  absent, a text that does not parse, or an array; when it is a value of the wrong
  shape, \<open>getUsers\<close> first replaces it by \<open>initialUsers\<close> (with a write that
  succeeds), and \<open>null\<close> is returned for an id that is not among those.
\<close>

theorem missing_id_returns_null:
  "(store_get videoId (records w) = None \<and> \<not> open_error w \<and> \<not> read_error w \<longrightarrow>
      fst (updateVideo w videoId updatedVideo) = Resolved None \<and>
      records (snd (updateVideo w videoId updatedVideo)) = records w) \<and>
   (getFromStorage (users_item w) [] = Inr users \<and> (\<forall>u\<in>set users. user_id u \<noteq> userId) \<longrightarrow>
      updateUserProfile w userId updatedUser = (Inr None, w)) \<and>
   (users_item w = Some (Malformed j) \<and> setItem_fault w = NoThrow \<and>
    (\<forall>u\<in>set (initialUsers w). user_id u \<noteq> userId) \<longrightarrow>
      updateUserProfile w userId updatedUser = (Inr None, set_users (initialUsers w) w))"
proof (intro conjI; rule impI)
  assume "store_get videoId (records w) = None \<and> \<not> open_error w \<and> \<not> read_error w"
  then show "fst (updateVideo w videoId updatedVideo) = Resolved None \<and>
      records (snd (updateVideo w videoId updatedVideo)) = records w"
    by (simp add: updateVideo_def await_def openDB_def)
next
  assume h: "getFromStorage (users_item w) [] = Inr users \<and> (\<forall>u\<in>set users. user_id u \<noteq> userId)"
  then have "findIndex (\<lambda>u. user_id u = userId) users = None"
    by (simp add: findIndex_None)
  with h show "updateUserProfile w userId updatedUser = (Inr None, w)"
    by (simp add: updateUserProfile_def getUsers_def)
next
  assume h: "users_item w = Some (Malformed j) \<and> setItem_fault w = NoThrow \<and>
    (\<forall>u\<in>set (initialUsers w). user_id u \<noteq> userId)"
  then have "findIndex (\<lambda>u. user_id u = userId) (initialUsers w) = None"
    by (simp add: findIndex_None)
  with h show "updateUserProfile w userId updatedUser = (Inr None, set_users (initialUsers w) w)"
    by (simp add: updateUserProfile_def getUsers_def getFromStorage_def saveToStorage_def
          set_users_def)
qed

theorem missing_id_returns_null_witness:
  "store_get ''v9'' (records school) = None \<and>
   fst (updateVideo school ''v9'' no_video_patch) = Resolved None \<and>
   records (snd (updateVideo school ''v9'' no_video_patch)) = records school \<and>
   updateUserProfile school ''user_9'' no_user_patch = (Inr None, school) \<and>
   users_item misshapen = Some (Malformed JContainer) \<and>
   updateUserProfile misshapen ''user_9'' no_user_patch
     = (Inr None, set_users [bob] misshapen)"
proof -
  have a: "store_get ''v9'' (records school) = None \<and> \<not> open_error school \<and> \<not> read_error school"
    by (simp add: store_get_def records_def school_def fresh_def lesson_def)
  have b: "getFromStorage (users_item school) [] = Inr [bob, alice] \<and>
           (\<forall>u\<in>set [bob, alice]. user_id u \<noteq> ''user_9'')"
    by (simp add: getFromStorage_def school_def alice_def bob_def)
  have i: "initialUsers misshapen = [bob]"
    by (simp add: misshapen_def school_def fresh_def)
  have c: "users_item misshapen = Some (Malformed JContainer) \<and>
           setItem_fault misshapen = NoThrow \<and>
           (\<forall>u\<in>set (initialUsers misshapen). user_id u \<noteq> ''user_9'')"
    by (simp add: i) (simp add: misshapen_def school_def fresh_def bob_def)
  show ?thesis
    using a c missing_id_returns_null [THEN conjunct1, rule_format, OF a]
      missing_id_returns_null [THEN conjunct2, THEN conjunct1, rule_format, OF b]
      missing_id_returns_null [THEN conjunct2, THEN conjunct2, rule_format, OF c]
    by (simp add: i)
qed











subsection \<open>Batch operations\<close>

lemma records_idb [simp]: "records (w\<lparr>idb := Some S\<rparr>) = S"
  by (simp add: records_def)

lemma records_commit [simp]: "records (w\<lparr>db := True, idb := Some S\<rparr>) = S"
  by (simp add: records_def)

lemma transaction_Nil [simp]: "transaction w [] = (Committed, w)"
  by (simp add: transaction_def)

text \<open>
  \<open>deleteMultipleVideos\<close> places its requests in the task that creates the
  transaction. For every answer of the platform the records afterwards are the records
  before or the records without every id of the list, ids that are not in the store
  being skipped.
\<close>

lemma deletes_applied: "apply_requests (map Delete ids) S = Some (all_deleted ids S)"
proof (induction ids arbitrary: S)
  case Nil
  then show ?case by (simp add: all_deleted_def)
next
  case (Cons i ids)
  have "all_deleted ids (store_delete i S) = all_deleted (i # ids) S"
    by (auto simp: all_deleted_def store_delete_def intro: filter_cong)
  with Cons show ?case by simp
qed

lemma deleteMultipleVideos_records:
  "records (snd (deleteMultipleVideos w ids))
     = (if (db w \<or> \<not> open_error w) \<and> write_fault w = NoFault
        then all_deleted ids (records w) else records w)"
proof -
  have e: "all_deleted [] (records w) = records w" by (simp add: all_deleted_def)
  show ?thesis
    by (auto simp: deleteMultipleVideos_def await_def openDB_def transaction_def
          deletes_applied e split: write_fault.splits)
qed

lemma deleteMultipleVideos_result:
  "fst (deleteMultipleVideos w ids)
     = (if \<not> db w \<and> open_error w then Rejected OpenError
        else if ids = [] then Resolved ()
        else case write_fault w of
               NoFault \<Rightarrow> Resolved () | CallThrows \<Rightarrow> Rejected CallError
             | RequestFails \<Rightarrow> Rejected RequestError | CommitAborts \<Rightarrow> Resolved ())"
  by (auto simp: deleteMultipleVideos_def await_def openDB_def transaction_def
        deletes_applied split: write_fault.splits)

text \<open>
  The two other batch operations never write: whatever the list and the state, the
  records are left as they were and the promise does not resolve. With a database that
  opens and reads, the call is rejected with \<open>TransactionInactiveError\<close> as soon
  as one id of the list is in the store, and never settles otherwise.
\<close>

lemma status_puts_empty:
  "status_puts status ids videos = [] \<longleftrightarrow> (\<forall>i\<in>set ids. store_get i videos = None)"
proof (induction ids)
  case Nil
  show ?case by simp
next
  case (Cons i ids)
  have "findIndex (\<lambda>v. video_id v = i) videos = None \<longleftrightarrow> store_get i videos = None"
    by (auto simp: findIndex_None store_get_def find_None_iff)
  with Cons show ?case
    by (cases "findIndex (\<lambda>v. video_id v = i) videos") (auto simp: Let_def)
qed

lemma tags_puts_empty:
  "tags_puts tagsToAdd ids videos = [] \<longleftrightarrow> (\<forall>i\<in>set ids. store_get i videos = None)"
proof (induction ids)
  case Nil
  show ?case by simp
next
  case (Cons i ids)
  have "findIndex (\<lambda>v. video_id v = i) videos = None \<longleftrightarrow> store_get i videos = None"
    by (auto simp: findIndex_None store_get_def find_None_iff)
  with Cons show ?case
    by (cases "findIndex (\<lambda>v. video_id v = i) videos") (auto simp: Let_def)
qed

lemma finished_transaction_result:
  "fst (finished_transaction w puts)
     = (if puts = [] then Pending else Rejected TransactionInactiveError)"
  "snd (finished_transaction w puts) = w"
  by (simp_all add: finished_transaction_def split: list.splits)

lemma status_and_tag_batches_write_nothing:
  "records (snd (updateMultipleVideosStatus w ids status)) = records w"
  "fst (updateMultipleVideosStatus w ids status) \<noteq> Resolved ()"
  "records (snd (addTagsToMultipleVideos w ids tagsToAdd)) = records w"
  "fst (addTagsToMultipleVideos w ids tagsToAdd) \<noteq> Resolved ()"
  by (auto simp: updateMultipleVideosStatus_def addTagsToMultipleVideos_def getRawVideos_def
        await_def openDB_def finished_transaction_result)

lemma status_and_tag_batches_outcome:
  assumes "db w \<or> \<not> open_error w" and "\<not> read_error w"
  shows "fst (updateMultipleVideosStatus w ids status)
           = (if \<forall>i\<in>set ids. store_get i (records w) = None then Pending
              else Rejected TransactionInactiveError)"
    and "fst (addTagsToMultipleVideos w ids tagsToAdd)
           = (if \<forall>i\<in>set ids. store_get i (records w) = None then Pending
              else Rejected TransactionInactiveError)"
  using assms
  by (auto simp: updateMultipleVideosStatus_def addTagsToMultipleVideos_def getRawVideos_def
        await_def openDB_def finished_transaction_result status_puts_empty tags_puts_empty)

text \<open>
  Claim C1 at \<open>updateMultipleVideosStatus\<close> and \<open>addTagsToMultipleVideos\<close>. On a
  store that holds \<open>v1\<close>, \<open>v2\<close> and \<open>v3\<close>, with a platform that answers without
  fault: the status batch over \<open>v1\<close>, the missing \<open>v9\<close> and \<open>v3\<close> is rejected and
  no record changes, the tag batch likewise, and a status batch over the missing id
  alone never settles; the delete batch over the same ids resolves, removes \<open>v1\<close>
  and \<open>v3\<close> and skips \<open>v9\<close>.
\<close>

theorem status_and_tag_batches_not_applied:
  "records school = [lesson ''v1'' ''2024-01-01'', lesson ''v2'' ''2024-03-01'',
                     lesson ''v3'' ''2024-01-01''] \<and>
   no_faults school \<and>
   fst (updateMultipleVideosStatus school [''v1'', ''v9'', ''v3''] Published)
     = Rejected TransactionInactiveError \<and>
   records (snd (updateMultipleVideosStatus school [''v1'', ''v9'', ''v3''] Published))
     = records school \<and>
   fst (addTagsToMultipleVideos school [''v9'', ''v2''] [''maths''])
     = Rejected TransactionInactiveError \<and>
   records (snd (addTagsToMultipleVideos school [''v9'', ''v2''] [''maths'']))
     = records school \<and>
   fst (updateMultipleVideosStatus school [''v9''] Published) = Pending \<and>
   fst (deleteMultipleVideos school [''v1'', ''v9'', ''v3'']) = Resolved () \<and>
   records (snd (deleteMultipleVideos school [''v1'', ''v9'', ''v3'']))
     = [lesson ''v2'' ''2024-03-01'']"
proof -
  have r: "records school = [lesson ''v1'' ''2024-01-01'', lesson ''v2'' ''2024-03-01'',
                             lesson ''v3'' ''2024-01-01'']"
    by (simp add: records_def school_def)
  have n: "no_faults school" and d: "db school"
    by (simp_all add: no_faults_def school_def fresh_def)
  have 1: "fst (updateMultipleVideosStatus school [''v1'', ''v9'', ''v3''] Published)
             = Rejected TransactionInactiveError"
    using n d
    by (simp add: updateMultipleVideosStatus_def getRawVideos_def await_def openDB_def
          no_faults_def r finished_transaction_def lesson_def Let_def)
  have 2: "fst (addTagsToMultipleVideos school [''v9'', ''v2''] [''maths''])
             = Rejected TransactionInactiveError"
    using n d
    by (simp add: addTagsToMultipleVideos_def getRawVideos_def await_def openDB_def
          no_faults_def r finished_transaction_def lesson_def Let_def)
  have 3: "fst (updateMultipleVideosStatus school [''v9''] Published) = Pending"
    using n d
    by (simp add: updateMultipleVideosStatus_def getRawVideos_def await_def openDB_def
          no_faults_def r finished_transaction_def lesson_def Let_def)
  have 4: "fst (deleteMultipleVideos school [''v1'', ''v9'', ''v3'']) = Resolved ()"
    using n by (simp add: deleteMultipleVideos_result no_faults_def)
  have 5: "records (snd (deleteMultipleVideos school [''v1'', ''v9'', ''v3'']))
             = [lesson ''v2'' ''2024-03-01'']"
    using n d by (simp add: deleteMultipleVideos_records no_faults_def r all_deleted_def lesson_def)
  show ?thesis
    using r n 1 2 3 4 5 by (simp add: status_and_tag_batches_write_nothing)
qed

subsection \<open>Malformed entries of \<open>localStorage\<close>\<close>

text \<open>
  Claim C2 as stated (a malformed value is replaced in the store by the default) fails
  for a text that does not parse: \<open>getUsers\<close> returns \<open>[]\<close> and the text stays.
\<close>

theorem malformed_entry_counterexample:
  "users_item corrupted = Some (Unparsable ''not json'') \<and>
   fst (getUsers corrupted) = Inr ([], False) \<and>
   users_item (snd (getUsers corrupted)) = Some (Unparsable ''not json'')"
  by (simp add: getUsers_def getFromStorage_def corrupted_def)

text \<open>
  Claim C2, as amended. With a write that succeeds: a stored value of the wrong shape
  is replaced on reading, by \<open>initialUsers\<close> in \<open>getUsers\<close>, by \<open>{}\<close> in
  \<open>getProgressForUser\<close> and by \<open>[]\<close> in the completions read of \<open>getVideos\<close>, and
  that value is what the read works with; a stored text that does not parse makes the
  read work with the default (\<open>[]\<close>, \<open>{}\<close>, \<open>[]\<close>) and stays in the store.
\<close>

theorem malformed_entries_on_read:
  assumes "setItem_fault w = NoThrow"
  shows "(users_item w = Some (Malformed j) \<longrightarrow>
            getUsers w = (Inr (initialUsers w, True), set_users (initialUsers w) w)) \<and>
         (users_item w = Some (Unparsable s) \<longrightarrow> getUsers w = (Inr ([], False), w)) \<and>
         (progress_item w userId = Some (Malformed j) \<longrightarrow>
            getProgressForUser w userId = (Inr [], set_progress userId [] w)) \<and>
         (progress_item w userId = Some (Unparsable s) \<longrightarrow>
            getProgressForUser w userId = (Inr [], w)) \<and>
         (db w \<and> \<not> read_error w \<and> userId \<noteq> [] \<and>
          completions_item w userId = Some (Malformed j) \<longrightarrow>
            getVideos getTime w (Some userId)
              = (Resolved (map (mark_completed [])
                   (array_sort w (compare_uploadedAt getTime) (records w))),
                 set_completions userId [] w)) \<and>
         (db w \<and> \<not> read_error w \<and> userId \<noteq> [] \<and>
          completions_item w userId = Some (Unparsable s) \<longrightarrow>
            getVideos getTime w (Some userId)
              = (Resolved (map (mark_completed [])
                   (array_sort w (compare_uploadedAt getTime) (records w))),
                 w)) \<and>
         (users_item w = Some (Malformed j) \<longrightarrow>
            users_item (snd (getUsers w)) = Some (Wellformed (initialUsers w))) \<and>
         (users_item w = Some (Unparsable s) \<longrightarrow>
            users_item (snd (getUsers w)) = Some (Unparsable s)) \<and>
         (progress_item w userId = Some (Malformed j) \<longrightarrow>
            progress_item (snd (getProgressForUser w userId)) userId = Some (Wellformed [])) \<and>
         (progress_item w userId = Some (Unparsable s) \<longrightarrow>
            progress_item (snd (getProgressForUser w userId)) userId = Some (Unparsable s)) \<and>
         (db w \<and> \<not> read_error w \<and> userId \<noteq> [] \<and>
          completions_item w userId = Some (Malformed j) \<longrightarrow>
            completions_item (snd (getVideos getTime w (Some userId))) userId
              = Some (Wellformed [])) \<and>
         (db w \<and> \<not> read_error w \<and> userId \<noteq> [] \<and>
          completions_item w userId = Some (Unparsable s) \<longrightarrow>
            completions_item (snd (getVideos getTime w (Some userId))) userId
              = Some (Unparsable s))"
  using assms
  by (simp add: getUsers_def getProgressForUser_def getVideos_def getRawVideos_def openDB_def
        await_def getFromStorage_def saveToStorage_def set_users_def set_progress_def
        set_completions_def)

theorem malformed_entries_on_read_witness:
  "setItem_fault corrupted = NoThrow \<and>
   getUsers corrupted = (Inr ([], False), corrupted) \<and>
   getProgressForUser corrupted ''user_1'' = (Inr [], set_progress ''user_1'' [] corrupted) \<and>
   snd (getVideos day corrupted (Some ''user_1'')) = set_completions ''user_1'' [] corrupted \<and>
   users_item (snd (getUsers corrupted)) = Some (Unparsable ''not json'') \<and>
   progress_item (snd (getProgressForUser corrupted ''user_1'')) ''user_1''
     = Some (Wellformed []) \<and>
   completions_item (snd (getVideos day corrupted (Some ''user_1''))) ''user_1''
     = Some (Wellformed [])"
proof -
  have a: "setItem_fault corrupted = NoThrow"
    by (simp add: corrupted_def school_def fresh_def)
  have u: "users_item corrupted = Some (Unparsable ''not json'')"
    by (simp add: corrupted_def)
  have p: "progress_item corrupted ''user_1'' = Some (Malformed (JStr ''x''))"
    by (simp add: corrupted_def)
  have c: "db corrupted \<and> \<not> read_error corrupted \<and> ''user_1'' \<noteq> [] \<and>
           completions_item corrupted ''user_1'' = Some (Malformed JNull)"
    by (simp add: corrupted_def school_def fresh_def)
  note t = malformed_entries_on_read [OF a]
  from t [of _ "''not json''"] u have 1: "getUsers corrupted = (Inr ([], False), corrupted)"
    by blast
  from t [of "JStr ''x''" _ "''user_1''"] p
  have 2: "getProgressForUser corrupted ''user_1'' = (Inr [], set_progress ''user_1'' [] corrupted)"
    by blast
  from t [of JNull _ "''user_1''" day] c
  have 3: "snd (getVideos day corrupted (Some ''user_1'')) = set_completions ''user_1'' [] corrupted"
    by simp
  show ?thesis using a 1 2 3 u by (simp add: set_progress_def set_completions_def)
qed

subsection \<open>Startup\<close>

lemma puts_applied:
  "apply_requests (map Put vs) S = Some (foldl (\<lambda>S v. store_put v S) S vs)"
  by (induction vs arbitrary: S) simp_all

lemma adds_not_empty:
  "apply_requests (map Add vs) T = Some S \<Longrightarrow> vs \<noteq> [] \<or> T \<noteq> [] \<Longrightarrow> S \<noteq> []"
proof (induction vs arbitrary: T)
  case Nil
  then show ?case by simp
next
  case (Cons v vs)
  from Cons.prems(1) obtain T' where
    a: "apply_request (Add v) T = Some T'" and b: "apply_requests (map Add vs) T' = Some S"
    by (auto split: option.splits)
  from a have "T' = insort_key video_id v T" by (auto split: if_splits)
  then have "T' \<noteq> []" by (cases T) auto
  with b show ?case using Cons.IH [of T'] by simp
qed

lemma migrate_no_faults:
  assumes "db w" and "write_fault w = NoFault"
  shows "migrateLocalStorageToIndexedDB w
     = (case videos_item w of
          None \<Rightarrow> w
        | Some (Unparsable s) \<Rightarrow> w
        | Some (Malformed j) \<Rightarrow> w\<lparr>videos_item := None\<rparr>
        | Some (Wellformed vs) \<Rightarrow>
            if vs = [] then w\<lparr>videos_item := None\<rparr>
            else w\<lparr>idb := Some (foldl (\<lambda>S v. store_put v S) (records w) vs),
                   videos_item := None\<rparr>)"
  using assms
  by (auto simp: migrateLocalStorageToIndexedDB_def removeItem_VIDEOS_KEY_def openDB_def
        transaction_def puts_applied split: option.splits item.splits)

text \<open>A state on which startup has nothing left to do.\<close>

lemma initDB_settled:
  assumes "db w" and "no_faults w" and "\<not> no_users_item w"
    and "videos_item w = None \<or> unparsable (videos_item w)"
    and "records w = [] \<longrightarrow>
           initialVideos w = [] \<or> apply_requests (map Add (initialVideos w)) [] = None"
  shows "initDB w = (Resolved (), w)"
proof -
  have m: "migrateLocalStorageToIndexedDB w = w"
    using assms(4)
    by (auto simp: migrateLocalStorageToIndexedDB_def unparsable_def
             split: option.splits item.splits)
  show ?thesis
    using assms(1,2,3,5)
    by (auto simp: initDB_def await_def openDB_def no_faults_def m transaction_def)
qed

lemma records_videos_item [simp]: "records (w\<lparr>videos_item := x\<rparr>) = records w"
  by (simp add: records_def)

lemma puts_not_empty:
  "S \<noteq> [] \<or> vs \<noteq> [] \<Longrightarrow> foldl (\<lambda>S v. store_put v S) S vs \<noteq> []"
proof (induction vs arbitrary: S)
  case Nil
  then show ?case by simp
next
  case (Cons v vs)
  have "store_put v S \<noteq> []"
    by (cases "store_delete (video_id v) S") (simp_all add: store_put_def)
  then show ?case using Cons.IH [of "store_put v S"] by simp
qed

lemma initDB_reaches_settled:
  assumes "no_faults w"
  shows "fst (initDB w) = Resolved () \<and> settled w (snd (initDB w))"
proof -
  define w1 where "w1 = snd (openDB w)"
  define w2 where "w2 = (if no_users_item w1 then set_users (initialUsers w1) w1 else w1)"
  define w3 where "w3 = migrateLocalStorageToIndexedDB w2"
  have o: "openDB w = (Resolved (), w1)"
    using assms by (simp add: w1_def openDB_def no_faults_def)
  have w1: "db w1" "no_faults w1" "videos_item w1 = videos_item w"
    using assms by (simp_all add: w1_def openDB_def no_faults_def)
  have w2: "db w2" "no_faults w2" "videos_item w2 = videos_item w" "\<not> no_users_item w2"
    using w1 by (simp_all add: w2_def set_users_def no_faults_def no_users_item_def)
  have sv: "(if no_users_item w1 then saveToStorage w1 (set_users (initialUsers w1)) else Inr w1)
              = Inr w2"
    using w1(2) by (simp add: w2_def saveToStorage_def no_faults_def)
  have m: "w3 = (case videos_item w2 of
          None \<Rightarrow> w2
        | Some (Unparsable s) \<Rightarrow> w2
        | Some (Malformed j) \<Rightarrow> w2\<lparr>videos_item := None\<rparr>
        | Some (Wellformed vs) \<Rightarrow>
            if vs = [] then w2\<lparr>videos_item := None\<rparr>
            else w2\<lparr>idb := Some (foldl (\<lambda>S v. store_put v S) (records w2) vs),
                    videos_item := None\<rparr>)"
    unfolding w3_def using w2(1,2) by (intro migrate_no_faults) (simp_all add: no_faults_def)
  have w3: "db w3" "no_faults w3" "\<not> no_users_item w3"
    "videos_item w3 = None \<or> (unparsable (videos_item w) \<and> videos_item w3 = videos_item w)"
    using w2
    by (auto simp: m no_faults_def no_users_item_def unparsable_def
             split: option.splits item.splits)
  have keep: "records w2 \<noteq> [] \<Longrightarrow> records w3 \<noteq> []"
    by (auto simp: m puts_not_empty split: option.splits item.splits)
  have i: "initDB w =
      (if records w2 = [] then
         if records w3 = [] then
           (case transaction w3 (map Add (initialVideos w3)) of
              (Threw, w4) \<Rightarrow> (Pending, w4)
            | (outcome, w4) \<Rightarrow> (Resolved (), w4))
         else (Resolved (), w3)
       else (Resolved (), w3))"
    using w2(2) by (simp add: initDB_def o await_def sv w3_def no_faults_def Let_def)
  show ?thesis
  proof (cases "records w2 = [] \<and> records w3 = []")
    case False
    then have "initDB w = (Resolved (), w3)" and "records w3 \<noteq> []"
      using keep by (auto simp: i)
    with w3 show ?thesis by (simp add: settled_def)
  next
    case True
    note e = this
    show ?thesis
    proof (cases "initialVideos w3 = []")
      case True
      with e have "initDB w = (Resolved (), w3)" by (simp add: i)
      with w3 True show ?thesis by (simp add: settled_def)
    next
      case False
      note ne = this
      show ?thesis
      proof (cases "apply_requests (map Add (initialVideos w3)) []")
        case None
        with e ne w3(2) have "initDB w = (Resolved (), w3)"
          by (simp add: i transaction_def no_faults_def)
        with w3 None show ?thesis by (simp add: settled_def)
      next
        case (Some S)
        with e ne w3(2) have r: "initDB w = (Resolved (), w3\<lparr>idb := Some S\<rparr>)"
          by (simp add: i transaction_def no_faults_def)
        from Some ne have "S \<noteq> []" by (auto dest: adds_not_empty)
        with w3 show ?thesis
          by (auto simp: r settled_def no_faults_def no_users_item_def)
      qed
    qed
  qed
qed

lemma initDB_settled':
  assumes "settled w0 w"
  shows "initDB w = (Resolved (), w)"
  using assms by (intro initDB_settled) (auto simp: settled_def)

text \<open>
  Claim C3. When the platform answers without fault, \<open>initDB\<close> resolves, and a
  second run changes nothing at all: the object store holds the same records, none
  twice, and a legacy key that is absent stays absent. After the run nothing is left
  under the legacy key, unless it held a text that does not parse, which no run
  touches.
\<close>

theorem initDB_idempotent:
  assumes "no_faults w"
  shows "fst (initDB w) = Resolved () \<and>
         initDB (snd (initDB w)) = (Resolved (), snd (initDB w)) \<and>
         records (snd (initDB (snd (initDB w)))) = records (snd (initDB w)) \<and>
         (videos_item (snd (initDB w)) = None \<longrightarrow>
            videos_item (snd (initDB (snd (initDB w)))) = None) \<and>
         (\<not> unparsable (videos_item w) \<longrightarrow> videos_item (snd (initDB w)) = None)"
proof -
  from initDB_reaches_settled [OF assms]
  have r: "fst (initDB w) = Resolved ()" and s: "settled w (snd (initDB w))"
    by simp_all
  from s have i: "initDB (snd (initDB w)) = (Resolved (), snd (initDB w))"
    by (rule initDB_settled')
  from s have "\<not> unparsable (videos_item w) \<longrightarrow> videos_item (snd (initDB w)) = None"
    by (auto simp: settled_def)
  with r i show ?thesis by simp
qed

theorem initDB_idempotent_witness:
  "no_faults legacy \<and>
   records (snd (initDB legacy)) = [lesson ''v5'' ''2024-01-01'', lesson ''v7'' ''2024-03-01''] \<and>
   videos_item (snd (initDB legacy)) = None \<and>
   initDB (snd (initDB legacy)) = (Resolved (), snd (initDB legacy))"
proof -
  have n: "no_faults legacy" by (simp add: no_faults_def legacy_def fresh_def)
  have r: "records (snd (initDB legacy))
             = [lesson ''v5'' ''2024-01-01'', lesson ''v7'' ''2024-03-01'']"
    by (simp add: initDB_def await_def openDB_def legacy_def fresh_def no_users_item_def
          saveToStorage_def set_users_def records_def migrateLocalStorageToIndexedDB_def
          transaction_def store_put_def store_delete_def removeItem_VIDEOS_KEY_def lesson_def)
  have l: "\<not> unparsable (videos_item legacy)" by (simp add: legacy_def unparsable_def)
  show ?thesis using n r l initDB_idempotent [OF n] by simp
qed

end
